theory Spec2Isabelle
  imports Main
begin

section \<open>Python values and exceptions\<close>

text \<open>
  The exceptions the modelled code can raise. A function that may raise returns
  \<open>py_error + 'a\<close>, with \<open>Inl\<close> the exception.
\<close>

datatype py_error = ValueError | TypeError | KeyError | AttributeError | IndexError | ClientError

text \<open>
  The values found in a request body or a stored item. A \<open>str\<close> is a list of
  characters, and the type of characters is a parameter. The validator inspects the
  content of a string with classes that range over all of Unicode, so its strings are
  lists of code points. The conflict check reads the strings of a stored item through
  equality, the replacement of \<open>Z\<close> and the parser only; they are lists of \<open>char\<close>.
\<close>

datatype 'c pyval =
    PyNone
  | PyBool bool
  | PyInt int
  | PyStr "'c list"
  | PyList "'c pyval list"
  | PyDict "('c list \<times> 'c pyval) list"

type_synonym codepoint = int

type_synonym unicode = "codepoint list"

text \<open>
  A code point is a number; the numbers outside 0 to 0x10FFFF stand for no character and
  belong to no class below. The next function gives the code points of a literal written
  in ASCII.
\<close>

definition ascii :: "string \<Rightarrow> unicode" where
  "ascii s = map of_char s"

text \<open>Truth value of an object, as \<open>not x\<close> and \<open>if x:\<close> test it.\<close>

fun truthy :: "'c pyval \<Rightarrow> bool" where
  "truthy PyNone = False"
| "truthy (PyBool b) = b"
| "truthy (PyInt i) = (i \<noteq> 0)"
| "truthy (PyStr s) = (s \<noteq> [])"
| "truthy (PyList xs) = (xs \<noteq> [])"
| "truthy (PyDict kvs) = (kvs \<noteq> [])"

fun isinstance_str :: "'c pyval \<Rightarrow> bool" where
  "isinstance_str (PyStr s) = True"
| "isinstance_str v = False"

section \<open>utils/validators.py: validate_nhs_number\<close>

text \<open>
  The class \<open>\s\<close> of a \<open>str\<close> pattern is the whitespace of Unicode: tab, line feed,
  vertical tab, form feed, carriage return, the separators U+001C to U+001F, space,
  U+0085, U+00A0, U+1680, U+2000 to U+200A, U+2028, U+2029, U+202F, U+205F and U+3000.
\<close>

definition re_space :: "codepoint \<Rightarrow> bool" where
  "re_space c =
     (c \<in> set [9, 10, 11, 12, 13, 28, 29, 30, 31, 32, 133, 160, 5760,
                8192, 8193, 8194, 8195, 8196, 8197, 8198, 8199, 8200, 8201, 8202,
                8232, 8233, 8239, 8287, 12288])"

text \<open>
  The class \<open>\d\<close> of a \<open>str\<close> pattern is the decimal digits of Unicode (category Nd), and
  \<open>int\<close> reads each of them by its digit value. In version 14.0.0 of the Unicode
  database (the one of Python 3.11) they stand in the runs below, each given by its first
  code point and its length: in every run the digits 0 to 9 follow one another, the run
  at U+1D7CE holding five such series.
\<close>

definition decimal_runs :: "(codepoint \<times> int) list" where
  "decimal_runs =
     [(48, 10), (1632, 10), (1776, 10), (1984, 10), (2406, 10), (2534, 10), (2662, 10),
      (2790, 10), (2918, 10), (3046, 10), (3174, 10), (3302, 10), (3430, 10), (3558, 10),
      (3664, 10), (3792, 10), (3872, 10), (4160, 10), (4240, 10), (6112, 10), (6160, 10),
      (6470, 10), (6608, 10), (6784, 10), (6800, 10), (6992, 10), (7088, 10), (7232, 10),
      (7248, 10), (42528, 10), (43216, 10), (43264, 10), (43472, 10), (43504, 10),
      (43600, 10), (44016, 10), (65296, 10), (66720, 10), (68912, 10), (69734, 10),
      (69872, 10), (69942, 10), (70096, 10), (70384, 10), (70736, 10), (70864, 10),
      (71248, 10), (71360, 10), (71472, 10), (71904, 10), (72016, 10), (72784, 10),
      (73040, 10), (73120, 10), (92768, 10), (92864, 10), (93008, 10), (120782, 50),
      (123200, 10), (123632, 10), (125264, 10), (130032, 10)]"

text \<open>The digit value of a code point, for the decimal digits alone.\<close>

definition decimal_value :: "codepoint \<Rightarrow> int option" where
  "decimal_value c =
     (case filter (\<lambda>(first, n). first \<le> c \<and> c < first + n) decimal_runs of
        [] \<Rightarrow> None
      | (first, n) # _ \<Rightarrow> Some ((c - first) mod 10))"

definition re_digit :: "codepoint \<Rightarrow> bool" where
  "re_digit c = (decimal_value c \<noteq> None)"

text \<open>
  \<open>re.sub(r'[\s-]', '', s)\<close>: every character of the class is deleted; the hyphen is
  code point 45.
\<close>

definition re_sub_space_hyphen :: "unicode \<Rightarrow> unicode" where
  "re_sub_space_hyphen s = filter (\<lambda>c. \<not> (re_space c \<or> c = 45)) s"

text \<open>
  \<open>re.match(r'^\d{10}$', s)\<close>: ten digits, then the end of the string or one line feed
  (code point 10) that ends the string, which is where \<open>$\<close> matches too.
\<close>

definition re_match_ten_digits :: "unicode \<Rightarrow> bool" where
  "re_match_ten_digits s =
     (10 \<le> length s \<and> list_all re_digit (take 10 s) \<and>
      (drop 10 s = [] \<or> drop 10 s = [10]))"

text \<open>\<open>int(d)\<close> on a one-character string: ValueError unless it is a decimal digit.\<close>

definition int_of_char :: "codepoint \<Rightarrow> py_error + int" where
  "int_of_char c = (case decimal_value c of None \<Rightarrow> Inl ValueError | Some d \<Rightarrow> Inr d)"

text \<open>The comprehension \<open>[int(d) for d in s]\<close>: the first failing conversion raises.\<close>

fun ints_of_chars :: "unicode \<Rightarrow> py_error + int list" where
  "ints_of_chars [] = Inr []"
| "ints_of_chars (c # cs) =
     (case int_of_char c of
        Inl e \<Rightarrow> Inl e
      | Inr d \<Rightarrow> (case ints_of_chars cs of Inl e \<Rightarrow> Inl e | Inr ds \<Rightarrow> Inr (d # ds)))"

text \<open>\<open>s[i]\<close> for an index that is not negative: IndexError past the end.\<close>

definition str_index :: "unicode \<Rightarrow> nat \<Rightarrow> py_error + codepoint" where
  "str_index s i = (if i < length s then Inr (s ! i) else Inl IndexError)"

text \<open>\<open>sum(digit * (10 - i) for i, digit in enumerate(digits))\<close>\<close>

definition weighted_total :: "int list \<Rightarrow> int" where
  "weighted_total digits = sum_list (map (\<lambda>(i, digit). digit * (10 - int i)) (enumerate 0 digits))"

text \<open>
  The Modulus 11 calculation that ends \<open>validate_nhs_number\<close>, on the cleaned string:
  the digits of \<open>clean_number[:9]\<close>, the check digit \<open>clean_number[9]\<close>, the weighted
  total and the comparison with the expected check digit.
\<close>

definition modulus_11_check :: "unicode \<Rightarrow> py_error + bool" where
  "modulus_11_check clean_number =
     (case ints_of_chars (take 9 clean_number) of
        Inl e \<Rightarrow> Inl e
      | Inr digits \<Rightarrow>
          (case str_index clean_number 9 of
             Inl e \<Rightarrow> Inl e
           | Inr c \<Rightarrow>
               (case int_of_char c of
                  Inl e \<Rightarrow> Inl e
                | Inr check_digit \<Rightarrow>
                    (let total = weighted_total digits;
                         remainder = total mod 11
                     in if remainder = 0 then Inr (check_digit = 0)
                        else if remainder = 1 then Inr False
                        else Inr (check_digit = 11 - remainder)))))"

text \<open>
  The function itself. Past the first test the argument is a \<open>str\<close>; the last branch
  is what \<open>re.sub\<close> would do with anything else.
\<close>

definition validate_nhs_number :: "codepoint pyval \<Rightarrow> py_error + bool" where
  "validate_nhs_number nhs_number =
     (if \<not> truthy nhs_number \<or> \<not> isinstance_str nhs_number then Inr False
      else case nhs_number of
        PyStr s \<Rightarrow>
          (let clean_number = re_sub_space_hyphen s in
           if \<not> re_match_ten_digits clean_number then Inr False
           else modulus_11_check clean_number)
      | _ \<Rightarrow> Inl TypeError)"

subsection \<open>The checksum rule in the words of the specification\<close>

text \<open>
  The value of a digit character, the weighted sum over the first nine positions
  (weight \<open>10 - i\<close> at position \<open>i\<close>), and the rule on a normalised string: ten decimal
  digits, remainder not 1, tenth digit 0 for remainder 0 and \<open>11 - r\<close> otherwise.
\<close>

definition digit_value :: "codepoint \<Rightarrow> int" where
  "digit_value c = (case decimal_value c of None \<Rightarrow> 0 | Some d \<Rightarrow> d)"

definition spec_weighted_sum :: "unicode \<Rightarrow> int" where
  "spec_weighted_sum s = sum_list (map (\<lambda>i. digit_value (s ! i) * (10 - int i)) [0..<9])"

definition spec_identifier_ok :: "unicode \<Rightarrow> bool" where
  "spec_identifier_ok s =
     (length s = 10 \<and> list_all re_digit s \<and>
      (let r = spec_weighted_sum s mod 11
       in r \<noteq> 1 \<and> digit_value (s ! 9) = (if r = 0 then 0 else 11 - r)))"

text \<open>Removal of the space character (code point 32) and the hyphen only.\<close>

definition strip_space_hyphen :: "unicode \<Rightarrow> unicode" where
  "strip_space_hyphen s = filter (\<lambda>c. c \<noteq> 32 \<and> c \<noteq> 45) s"

text \<open>
  The rule with its words taken to the letter: the space character and the hyphen are
  removed, and what is left is ten ASCII digits that satisfy the checksum rule.
\<close>

definition ascii_digit :: "codepoint \<Rightarrow> bool" where
  "ascii_digit c = (48 \<le> c \<and> c \<le> 57)"

definition literal_identifier_ok :: "unicode \<Rightarrow> bool" where
  "literal_identifier_ok raw =
     (list_all ascii_digit (strip_space_hyphen raw) \<and>
      spec_identifier_ok (strip_space_hyphen raw))"

section \<open>Stored items and datetime objects\<close>

text \<open>
  An item of the appointments table is a dict from attribute names to values; the
  association list keeps it executable. \<open>d.get(k)\<close> gives \<open>None\<close> for an absent key,
  \<open>d.get(k, default)\<close> the default, \<open>d[k]\<close> raises KeyError.
\<close>

type_synonym item = "(string \<times> char pyval) list"

definition dict_get :: "item \<Rightarrow> string \<Rightarrow> char pyval" where
  "dict_get d k = (case map_of d k of None \<Rightarrow> PyNone | Some v \<Rightarrow> v)"

definition dict_get_default :: "item \<Rightarrow> string \<Rightarrow> char pyval \<Rightarrow> char pyval" where
  "dict_get_default d k dflt = (case map_of d k of None \<Rightarrow> dflt | Some v \<Rightarrow> v)"

definition dict_index :: "item \<Rightarrow> string \<Rightarrow> py_error + char pyval" where
  "dict_index d k = (case map_of d k of None \<Rightarrow> Inl KeyError | Some v \<Rightarrow> Inr v)"

text \<open>
  \<open>v == x\<close> for a stored value \<open>v\<close> and an argument \<open>x\<close> that is a \<open>str\<close> or \<open>None\<close>
  (the type of \<open>practitioner_id\<close> and of \<open>exclude_appointment_id\<close>).
\<close>

fun py_eq_optional_str :: "char pyval \<Rightarrow> string option \<Rightarrow> bool" where
  "py_eq_optional_str v None = (v = PyNone)"
| "py_eq_optional_str v (Some s) = (v = PyStr s)"

text \<open>\<open>v.replace('Z', '+00:00')\<close>: a method of \<open>str\<close> only.\<close>

definition str_replace_Z :: "string \<Rightarrow> string" where
  "str_replace_Z s = concat (map (\<lambda>c. if c = CHR ''Z'' then ''+00:00'' else [c]) s)"

fun py_replace_Z :: "char pyval \<Rightarrow> py_error + string" where
  "py_replace_Z (PyStr s) = Inr (str_replace_Z s)"
| "py_replace_Z v = Inl AttributeError"

text \<open>\<open>m + v\<close> for an int \<open>m\<close> and a stored value \<open>v\<close>; a bool counts as 0 or 1.\<close>

fun py_int_add :: "int \<Rightarrow> 'c pyval \<Rightarrow> py_error + int" where
  "py_int_add m (PyInt d) = Inr (m + d)"
| "py_int_add m (PyBool b) = Inr (m + (if b then 1 else 0))"
| "py_int_add m v = Inl TypeError"

text \<open>
  A \<open>datetime\<close> object: its fields, and \<open>tzinfo\<close> as the UTC offset in microseconds
  (\<open>None\<close> for a naive object).
\<close>

record datetime =
  year :: int
  month :: int
  day :: int
  hour :: int
  minute :: int
  second :: int
  microsecond :: int
  tzinfo :: "int option"

text \<open>The proleptic Gregorian ordinal of a date, as the library computes it.\<close>

definition is_leap :: "int \<Rightarrow> bool" where
  "is_leap y = (y mod 4 = 0 \<and> (y mod 100 \<noteq> 0 \<or> y mod 400 = 0))"

definition days_before_year :: "int \<Rightarrow> int" where
  "days_before_year y = (y - 1) * 365 + (y - 1) div 4 - (y - 1) div 100 + (y - 1) div 400"

definition days_before_month :: "int \<Rightarrow> int \<Rightarrow> int" where
  "days_before_month y m =
     (if 1 \<le> m \<and> m \<le> 12
      then [0, 31, 59, 90, 120, 151, 181, 212, 243, 273, 304, 334] ! nat (m - 1) +
           (if 2 < m \<and> is_leap y then 1 else 0)
      else 0)"

definition ymd2ord :: "int \<Rightarrow> int \<Rightarrow> int \<Rightarrow> int" where
  "ymd2ord y m d = days_before_year y + days_before_month y m + d"

text \<open>Microseconds from the start of ordinal day 0 to the wall-clock reading of the object.\<close>

definition timestamp_us :: "datetime \<Rightarrow> int" where
  "timestamp_us t =
     ((((ymd2ord (year t) (month t) (day t) * 24 + hour t) * 60 + minute t) * 60 + second t)
        * 1000000) + microsecond t"

text \<open>The point in time an object denotes: the reading less the UTC offset.\<close>

definition instant_us :: "datetime \<Rightarrow> int" where
  "instant_us t = timestamp_us t - (case tzinfo t of None \<Rightarrow> 0 | Some off \<Rightarrow> off)"

text \<open>
  \<open>a < b\<close> on datetime objects: two naive objects compare by their readings (on the
  field ranges of a datetime object, the order of the fields compared in turn), two aware
  ones by the points in time, and a naive with an aware one raises TypeError.
\<close>

definition datetime_less :: "datetime \<Rightarrow> datetime \<Rightarrow> py_error + bool" where
  "datetime_less a b =
     (case (tzinfo a, tzinfo b) of
        (None, None) \<Rightarrow> Inr (timestamp_us a < timestamp_us b)
      | (Some oa, Some ob) \<Rightarrow> Inr (timestamp_us a - oa < timestamp_us b - ob)
      | _ \<Rightarrow> Inl TypeError)"

text \<open>\<open>t.replace(minute=m)\<close>: ValueError unless \<open>m\<close> is in 0..59.\<close>

definition datetime_replace_minute :: "datetime \<Rightarrow> int \<Rightarrow> py_error + datetime" where
  "datetime_replace_minute t m =
     (if 0 \<le> m \<and> m \<le> 59 then Inr (t\<lparr>minute := m\<rparr>) else Inl ValueError)"

section \<open>appointments/create_appointment.py and update_appointment.py: check_appointment_conflicts\<close>

text \<open>
  Two collaborators are parameters of the model: \<open>fromisoformat\<close>, the library's parser
  (a datetime or the exception it raises), and \<open>db_query_items\<close>, the answer of the
  PracticeIndex query for a practice and the date of a datetime (a list of items or the
  exception it raises).

  The body of the loop is the same text in both files, from the status test to the
  \<open>append\<close>; it is modelled once, in the next five definitions.
\<close>

text \<open>\<open>existing.get('status') in ['cancelled', 'completed']\<close>\<close>

definition status_skipped :: "item \<Rightarrow> bool" where
  "status_skipped existing =
     (dict_get existing ''status'' \<in> set [PyStr ''cancelled'', PyStr ''completed''])"

text \<open>\<open>datetime.fromisoformat(existing['appointment_datetime'].replace('Z', '+00:00'))\<close>\<close>

definition existing_time_of :: "(string \<Rightarrow> py_error + datetime) \<Rightarrow> item \<Rightarrow> py_error + datetime" where
  "existing_time_of fromisoformat existing =
     (case dict_index existing ''appointment_datetime'' of
        Inl e \<Rightarrow> Inl e
      | Inr v \<Rightarrow> (case py_replace_Z v of Inl e \<Rightarrow> Inl e | Inr s \<Rightarrow> fromisoformat s))"

text \<open>
  \<open>existing_time.replace(minute=existing_time.minute + existing_duration)\<close> with
  \<open>existing_duration = existing.get('duration_minutes', 30)\<close>
\<close>

definition existing_end_of :: "datetime \<Rightarrow> item \<Rightarrow> py_error + datetime" where
  "existing_end_of existing_time existing =
     (case py_int_add (minute existing_time)
             (dict_get_default existing ''duration_minutes'' (PyInt 30)) of
        Inl e \<Rightarrow> Inl e
      | Inr m \<Rightarrow> datetime_replace_minute existing_time m)"

text \<open>
  \<open>start_time < existing_end and end_time > existing_time\<close>; the second comparison is
  evaluated only when the first is true.
\<close>

definition overlap_test :: "datetime \<Rightarrow> datetime \<Rightarrow> datetime \<Rightarrow> datetime \<Rightarrow> py_error + bool" where
  "overlap_test start_time end_time existing_time existing_end =
     (case datetime_less start_time existing_end of
        Inl e \<Rightarrow> Inl e
      | Inr lt \<Rightarrow> if \<not> lt then Inr False else datetime_less existing_time end_time)"

text \<open>
  \<open>if practitioner_id:\<close> is false for \<open>None\<close> and for the empty string; then every
  overlapping item is appended. Otherwise the item's practitioner must equal the argument.
\<close>

definition practitioner_scope :: "string option \<Rightarrow> item \<Rightarrow> bool" where
  "practitioner_scope practitioner_id existing =
     (if practitioner_id \<noteq> None \<and> practitioner_id \<noteq> Some []
      then py_eq_optional_str (dict_get existing ''practitioner_id'') practitioner_id
      else True)"

text \<open>
  One pass of the loop body from the status test on: \<open>Inr True\<close> when the item is appended
  to \<open>conflicts\<close>, \<open>Inr False\<close> when it is not, \<open>Inl\<close> when a statement raises.
\<close>

definition examine_existing ::
  "(string \<Rightarrow> py_error + datetime) \<Rightarrow> datetime \<Rightarrow> datetime \<Rightarrow> string option \<Rightarrow> item
     \<Rightarrow> py_error + bool" where
  "examine_existing fromisoformat start_time end_time practitioner_id existing =
     (if status_skipped existing then Inr False
      else case existing_time_of fromisoformat existing of
        Inl e \<Rightarrow> Inl e
      | Inr existing_time \<Rightarrow>
          (case existing_end_of existing_time existing of
             Inl e \<Rightarrow> Inl e
           | Inr existing_end \<Rightarrow>
               (case overlap_test start_time end_time existing_time existing_end of
                  Inl e \<Rightarrow> Inl e
                | Inr ov \<Rightarrow> Inr (ov \<and> practitioner_scope practitioner_id existing))))"

text \<open>
  The interval of an existing item as the body computes it, start then end: what the
  two statements return, or the exception the first failing one raises.
\<close>

definition existing_interval_of ::
  "(string \<Rightarrow> py_error + datetime) \<Rightarrow> item \<Rightarrow> py_error + datetime \<times> datetime" where
  "existing_interval_of fromisoformat existing =
     (case existing_time_of fromisoformat existing of
        Inl e \<Rightarrow> Inl e
      | Inr existing_time \<Rightarrow>
          (case existing_end_of existing_time existing of
             Inl e \<Rightarrow> Inl e
           | Inr existing_end \<Rightarrow> Inr (existing_time, existing_end)))"

text \<open>The loop of create_appointment.py, with \<open>conflicts\<close> as the accumulator.\<close>

fun create_scan ::
  "(string \<Rightarrow> py_error + datetime) \<Rightarrow> datetime \<Rightarrow> datetime \<Rightarrow> string option
     \<Rightarrow> item list \<Rightarrow> item list \<Rightarrow> py_error + item list" where
  "create_scan fromisoformat start_time end_time practitioner_id [] conflicts = Inr conflicts"
| "create_scan fromisoformat start_time end_time practitioner_id (existing # rest) conflicts =
     (case examine_existing fromisoformat start_time end_time practitioner_id existing of
        Inl e \<Rightarrow> Inl e
      | Inr appended \<Rightarrow>
          create_scan fromisoformat start_time end_time practitioner_id rest
            (if appended then conflicts @ [existing] else conflicts))"

text \<open>
  The loop of update_appointment.py: the item whose \<open>appointment_id\<close> equals
  \<open>exclude_appointment_id\<close> is passed over before anything else is read from it.
\<close>

fun update_scan ::
  "(string \<Rightarrow> py_error + datetime) \<Rightarrow> datetime \<Rightarrow> datetime \<Rightarrow> string option
     \<Rightarrow> string option \<Rightarrow> item list \<Rightarrow> item list \<Rightarrow> py_error + item list" where
  "update_scan fromisoformat start_time end_time practitioner_id exclude_appointment_id []
     conflicts = Inr conflicts"
| "update_scan fromisoformat start_time end_time practitioner_id exclude_appointment_id
     (existing # rest) conflicts =
     (if py_eq_optional_str (dict_get existing ''appointment_id'') exclude_appointment_id
      then update_scan fromisoformat start_time end_time practitioner_id
             exclude_appointment_id rest conflicts
      else case examine_existing fromisoformat start_time end_time practitioner_id existing of
        Inl e \<Rightarrow> Inl e
      | Inr appended \<Rightarrow>
          update_scan fromisoformat start_time end_time practitioner_id
            exclude_appointment_id rest
            (if appended then conflicts @ [existing] else conflicts))"

text \<open>The \<open>try\<close> block of each function: what it returns, or the exception that leaves it.\<close>

definition create_try ::
  "(string \<Rightarrow> py_error + datetime) \<Rightarrow> (string \<Rightarrow> datetime \<Rightarrow> py_error + item list)
     \<Rightarrow> string \<Rightarrow> string \<Rightarrow> int \<Rightarrow> string option \<Rightarrow> py_error + item list" where
  "create_try fromisoformat db_query_items practice_id appointment_datetime duration_minutes
     practitioner_id =
     (case fromisoformat (str_replace_Z appointment_datetime) of
        Inl e \<Rightarrow> Inl e
      | Inr appt_time \<Rightarrow>
          (case datetime_replace_minute appt_time (minute appt_time + duration_minutes) of
             Inl e \<Rightarrow> Inl e
           | Inr end_time \<Rightarrow>
               (case db_query_items practice_id appt_time of
                  Inl e \<Rightarrow> Inl e
                | Inr existing_appointments \<Rightarrow>
                    create_scan fromisoformat appt_time end_time practitioner_id
                      existing_appointments [])))"

definition update_try ::
  "(string \<Rightarrow> py_error + datetime) \<Rightarrow> (string \<Rightarrow> datetime \<Rightarrow> py_error + item list)
     \<Rightarrow> string \<Rightarrow> string \<Rightarrow> int \<Rightarrow> string option \<Rightarrow> string option
     \<Rightarrow> py_error + item list" where
  "update_try fromisoformat db_query_items practice_id appointment_datetime duration_minutes
     practitioner_id exclude_appointment_id =
     (case fromisoformat (str_replace_Z appointment_datetime) of
        Inl e \<Rightarrow> Inl e
      | Inr appt_time \<Rightarrow>
          (case datetime_replace_minute appt_time (minute appt_time + duration_minutes) of
             Inl e \<Rightarrow> Inl e
           | Inr end_time \<Rightarrow>
               (case db_query_items practice_id appt_time of
                  Inl e \<Rightarrow> Inl e
                | Inr existing_appointments \<Rightarrow>
                    update_scan fromisoformat appt_time end_time practitioner_id
                      exclude_appointment_id existing_appointments [])))"

text \<open>
  The two functions named \<open>check_appointment_conflicts\<close>, prefixed by their module:
  \<open>except Exception\<close> turns every exception of the block into the empty list.
\<close>

definition create_check_appointment_conflicts ::
  "(string \<Rightarrow> py_error + datetime) \<Rightarrow> (string \<Rightarrow> datetime \<Rightarrow> py_error + item list)
     \<Rightarrow> string \<Rightarrow> string \<Rightarrow> int \<Rightarrow> string option \<Rightarrow> item list" where
  "create_check_appointment_conflicts fromisoformat db_query_items practice_id
     appointment_datetime duration_minutes practitioner_id =
     (case create_try fromisoformat db_query_items practice_id appointment_datetime
             duration_minutes practitioner_id of
        Inl e \<Rightarrow> []
      | Inr conflicts \<Rightarrow> conflicts)"

definition update_check_appointment_conflicts ::
  "(string \<Rightarrow> py_error + datetime) \<Rightarrow> (string \<Rightarrow> datetime \<Rightarrow> py_error + item list)
     \<Rightarrow> string \<Rightarrow> string \<Rightarrow> int \<Rightarrow> string option \<Rightarrow> string option \<Rightarrow> item list" where
  "update_check_appointment_conflicts fromisoformat db_query_items practice_id
     appointment_datetime duration_minutes practitioner_id exclude_appointment_id =
     (case update_try fromisoformat db_query_items practice_id appointment_datetime
             duration_minutes practitioner_id exclude_appointment_id of
        Inl e \<Rightarrow> []
      | Inr conflicts \<Rightarrow> conflicts)"

subsection \<open>The interval rule as the specification words it\<close>

text \<open>
  An appointment occupies \<open>[start, start + duration_minutes)\<close>, in microseconds here;
  two intervals conflict iff \<open>A.start < B.end AND A.end > B.start\<close>.
\<close>

definition spec_end :: "int \<Rightarrow> int \<Rightarrow> int" where
  "spec_end start duration_minutes = start + duration_minutes * 60000000"

definition spec_overlap :: "int \<Rightarrow> int \<Rightarrow> int \<Rightarrow> int \<Rightarrow> bool" where
  "spec_overlap a_start a_duration b_start b_duration =
     (a_start < spec_end b_start b_duration \<and> spec_end a_start a_duration > b_start)"

subsection \<open>A parser and a query for the examples\<close>

text \<open>
  The fixed-width strings \<open>YYYY-MM-DDTHH:MM:SS\<close> and \<open>YYYY-MM-DDTHH:MM:SS+HH:MM\<close>, which
  the library's \<open>fromisoformat\<close> reads the same way; any other string is refused here.
  The examples use it at such strings only; the general theorems hold for every parser.
\<close>

definition digits_value :: "string \<Rightarrow> int option" where
  "digits_value s =
     (if s \<noteq> [] \<and> list_all (\<lambda>c. ascii_digit (of_char c)) s
      then Some (foldl (\<lambda>a c. 10 * a + (int (of_char c) - 48)) 0 s) else None)"

definition substring :: "string \<Rightarrow> nat \<Rightarrow> nat \<Rightarrow> string" where
  "substring s i j = take (j - i) (drop i s)"

definition days_in_month :: "int \<Rightarrow> int \<Rightarrow> int" where
  "days_in_month y m =
     (if m = 2 then (if is_leap y then 29 else 28)
      else if m \<in> set [4, 6, 9, 11] then 30 else 31)"

definition fromisoformat_basic :: "string \<Rightarrow> py_error + datetime" where
  "fromisoformat_basic s =
     (if length s \<noteq> 19 \<and> length s \<noteq> 25 then Inl ValueError
      else case (digits_value (substring s 0 4), digits_value (substring s 5 7),
                 digits_value (substring s 8 10), digits_value (substring s 11 13),
                 digits_value (substring s 14 16), digits_value (substring s 17 19)) of
        (Some y, Some mo, Some d, Some h, Some mi, Some se) \<Rightarrow>
          if s ! 4 = CHR ''-'' \<and> s ! 7 = CHR ''-'' \<and> s ! 13 = CHR '':'' \<and> s ! 16 = CHR '':'' \<and>
             1 \<le> y \<and> 1 \<le> mo \<and> mo \<le> 12 \<and> 1 \<le> d \<and> d \<le> days_in_month y mo \<and>
             h \<le> 23 \<and> mi \<le> 59 \<and> se \<le> 59
          then (if length s = 19
                then Inr \<lparr>year = y, month = mo, day = d, hour = h, minute = mi, second = se,
                          microsecond = 0, tzinfo = None\<rparr>
                else case (digits_value (substring s 20 22), digits_value (substring s 23 25)) of
                  (Some oh, Some om) \<Rightarrow>
                    if (s ! 19 = CHR ''+'' \<or> s ! 19 = CHR ''-'') \<and> s ! 22 = CHR '':'' \<and>
                       oh \<le> 23 \<and> om \<le> 59
                    then Inr \<lparr>year = y, month = mo, day = d, hour = h, minute = mi, second = se,
                              microsecond = 0,
                              tzinfo = Some ((if s ! 19 = CHR ''-'' then - 1 else 1) *
                                             ((oh * 60 + om) * 60000000))\<rparr>
                    else Inl ValueError
                | _ \<Rightarrow> Inl ValueError)
          else Inl ValueError
      | _ \<Rightarrow> Inl ValueError)"

text \<open>A query that answers with a fixed list, whatever the practice and the date.\<close>

definition query_const :: "item list \<Rightarrow> string \<Rightarrow> datetime \<Rightarrow> py_error + item list" where
  "query_const existing practice_id appt_time = Inr existing"

text \<open>An item with the attributes the conflict check reads, for the examples.\<close>

definition appointment_item :: "string \<Rightarrow> string \<Rightarrow> string \<Rightarrow> int \<Rightarrow> string \<Rightarrow> item" where
  "appointment_item appointment_id practitioner_id appointment_datetime duration_minutes status =
     [(''appointment_id'', PyStr appointment_id),
      (''practice_id'', PyStr ''P1''),
      (''practitioner_id'', PyStr practitioner_id),
      (''appointment_datetime'', PyStr appointment_datetime),
      (''duration_minutes'', PyInt duration_minutes),
      (''status'', PyStr status)]"

subsection \<open>The conflict detector as the specification words it\<close>

text \<open>
  Section 4.2 of the specification, step by step: an existing appointment is a conflict
  when it is not the excluded one, its status is neither cancelled nor completed, its
  interval (own duration, 30 when absent) overlaps the candidate's, and its practitioner
  equals the candidate's when the candidate has one. A record whose interval cannot be
  read is passed over.
\<close>

definition spec_interval :: "(string \<Rightarrow> py_error + datetime) \<Rightarrow> item \<Rightarrow> (int \<times> int) option" where
  "spec_interval fromisoformat existing =
     (case existing_time_of fromisoformat existing of
        Inl e \<Rightarrow> None
      | Inr e_start \<Rightarrow>
          (case dict_get_default existing ''duration_minutes'' (PyInt 30) of
             PyInt e_duration \<Rightarrow> Some (instant_us e_start, e_duration)
           | _ \<Rightarrow> None))"

definition spec_find_conflicts ::
  "(string \<Rightarrow> py_error + datetime) \<Rightarrow> datetime \<Rightarrow> int \<Rightarrow> string option \<Rightarrow> string option
     \<Rightarrow> item list \<Rightarrow> item list" where
  "spec_find_conflicts fromisoformat start duration_minutes practitioner_id exclude_id
     existing_same_day_appointments =
     filter (\<lambda>existing.
        (case exclude_id of
           None \<Rightarrow> True
         | Some x \<Rightarrow> dict_get existing ''appointment_id'' \<noteq> PyStr x) \<and>
        dict_get existing ''status'' \<noteq> PyStr ''cancelled'' \<and>
        dict_get existing ''status'' \<noteq> PyStr ''completed'' \<and>
        (case spec_interval fromisoformat existing of
           None \<Rightarrow> False
         | Some (e_start, e_duration) \<Rightarrow>
             spec_overlap (instant_us start) duration_minutes e_start e_duration) \<and>
        (case practitioner_id of
           None \<Rightarrow> True
         | Some p \<Rightarrow> dict_get existing ''practitioner_id'' = PyStr p))
       existing_same_day_appointments"

section \<open>Properties of validate_nhs_number\<close>

lemma int_of_char_digit: "re_digit c \<Longrightarrow> int_of_char c = Inr (digit_value c)"
  by (auto simp: re_digit_def int_of_char_def digit_value_def)

lemma ints_of_chars_digits:
  "list_all re_digit s \<Longrightarrow> ints_of_chars s = Inr (map digit_value s)"
  by (induction s) (simp_all add: int_of_char_digit)

lemma re_sub_no_newline: "10 \<notin> set (re_sub_space_hyphen s)"
  by (auto simp: re_sub_space_hyphen_def re_space_def)

text \<open>On a cleaned string the pattern matches exactly the strings of ten digits.\<close>

lemma re_match_clean:
  "re_match_ten_digits (re_sub_space_hyphen s) =
     (length (re_sub_space_hyphen s) = 10 \<and> list_all re_digit (re_sub_space_hyphen s))"
proof -
  let ?c = "re_sub_space_hyphen s"
  have nl: "drop 10 ?c \<noteq> [10]"
  proof
    assume "drop 10 ?c = [10]"
    then have "10 \<in> set (drop 10 ?c)" by simp
    then have "10 \<in> set ?c" by (rule in_set_dropD)
    with re_sub_no_newline show False by blast
  qed
  show ?thesis
    using nl by (auto simp: re_match_ten_digits_def)
qed

lemma length_ten:
  assumes "length s = 10"
  obtains a b c d e f g h i j where "s = [a, b, c, d, e, f, g, h, i, j]"
  using assms by (auto simp: length_Suc_conv eval_nat_numeral)

text \<open>On ten digits the calculation raises nothing and decides the rule.\<close>

lemma modulus_11_check_ten:
  assumes "length s = 10" and "list_all re_digit s"
  shows "modulus_11_check s = Inr (spec_identifier_ok s)"
proof -
  from assms(1) obtain a b c d e f g h i j where s: "s = [a, b, c, d, e, f, g, h, i, j]"
    by (rule length_ten)
  have t9: "list_all re_digit (take 9 s)"
    using assms(2) s by simp
  have w: "weighted_total (map digit_value (take 9 s)) = spec_weighted_sum s"
    unfolding s
    by (simp add: weighted_total_def spec_weighted_sum_def enumerate_eq_zip upt_rec
          eval_nat_numeral)
  have j: "re_digit j"
    using assms(2) s by simp
  have nine: "str_index s 9 = Inr j"
    by (simp add: str_index_def s)
  have last: "digit_value (s ! 9) = digit_value j"
    by (simp add: s)
  show ?thesis
    using assms w
    by (simp add: modulus_11_check_def ints_of_chars_digits [OF t9] nine
          int_of_char_digit [OF j] spec_identifier_ok_def Let_def last)
qed

lemma validate_nhs_number_str:
  "validate_nhs_number (PyStr raw) = Inr (spec_identifier_ok (re_sub_space_hyphen raw))"
proof (cases "raw = []")
  case True
  then show ?thesis
    by (simp add: validate_nhs_number_def spec_identifier_ok_def re_sub_space_hyphen_def)
next
  case False
  show ?thesis
  proof (cases "re_match_ten_digits (re_sub_space_hyphen raw)")
    case True
    then have "length (re_sub_space_hyphen raw) = 10"
      and "list_all re_digit (re_sub_space_hyphen raw)"
      by (simp_all add: re_match_clean)
    then have "modulus_11_check (re_sub_space_hyphen raw) =
                 Inr (spec_identifier_ok (re_sub_space_hyphen raw))"
      by (rule modulus_11_check_ten)
    with True False show ?thesis
      by (simp add: validate_nhs_number_def)
  next
    case nomatch: False
    then have "\<not> spec_identifier_ok (re_sub_space_hyphen raw)"
      by (auto simp: re_match_clean spec_identifier_ok_def)
    with nomatch False show ?thesis
      by (simp add: validate_nhs_number_def)
  qed
qed

lemma validate_nhs_number_not_str:
  "\<not> isinstance_str v \<Longrightarrow> validate_nhs_number v = Inr False"
  by (simp add: validate_nhs_number_def)

lemma re_sub_idem: "re_sub_space_hyphen (re_sub_space_hyphen s) = re_sub_space_hyphen s"
  by (simp add: re_sub_space_hyphen_def)

lemma re_sub_strip: "re_sub_space_hyphen (strip_space_hyphen s) = re_sub_space_hyphen s"
proof -
  have "\<And>c. \<not> (re_space c \<or> c = 45) \<Longrightarrow> c \<noteq> 32"
    by (auto simp: re_space_def)
  then show ?thesis
    by (auto simp: re_sub_space_hyphen_def strip_space_hyphen_def intro: filter_cong)
qed

text \<open>
  Claim C4, as stated, fails. With the space character and the hyphen alone removed and
  ten ASCII digits required, the rule of the claim refuses 9434765919 behind a tab, the
  same digits before a line feed, and the same number written in fullwidth digits
  (U+FF10 to U+FF19); \<open>validate_nhs_number\<close> returns true on all three.
\<close>

theorem validate_nhs_number_wider_than_stated:
  "validate_nhs_number (PyStr (9 # ascii ''9434765919'')) = Inr True \<and>
   \<not> literal_identifier_ok (9 # ascii ''9434765919'') \<and>
   validate_nhs_number (PyStr (ascii ''9434765919'' @ [10])) = Inr True \<and>
   \<not> literal_identifier_ok (ascii ''9434765919'' @ [10]) \<and>
   validate_nhs_number
     (PyStr [65305, 65300, 65299, 65300, 65303, 65302, 65301, 65305, 65297, 65305]) =
     Inr True \<and>
   \<not> literal_identifier_ok
       [65305, 65300, 65299, 65300, 65303, 65302, 65301, 65305, 65297, 65305]"
  by code_simp

text \<open>
  Claim C4, amended. \<open>validate_nhs_number\<close> on a string returns true iff the string,
  once every whitespace character (the class \<open>\s\<close>: space, tab, line feed and the other
  whitespace of Unicode) and every hyphen is deleted, is ten decimal digits of Unicode
  (the class \<open>\d\<close>: the ASCII digits and the digits of other scripts, each read by its
  digit value) whose first nine give the weighted sum \<open>S\<close> (weight \<open>10 - i\<close> at position
  \<open>i\<close>) with \<open>r = S mod 11\<close> not 1 and whose tenth digit is 0 when \<open>r = 0\<close> and \<open>11 - r\<close>
  otherwise. So 9434765919 is valid; 9434765918, 1234567890 and 123456789 are not; and
  a remainder of 1 makes the result false whatever the tenth digit.
\<close>

theorem validate_nhs_number_modulus_11:
  "validate_nhs_number (PyStr raw) = Inr (spec_identifier_ok (re_sub_space_hyphen raw)) \<and>
   validate_nhs_number (PyStr (ascii ''9434765919'')) = Inr True \<and>
   validate_nhs_number (PyStr (ascii ''9434765918'')) = Inr False \<and>
   validate_nhs_number (PyStr (ascii ''1234567890'')) = Inr False \<and>
   validate_nhs_number (PyStr (ascii ''123456789'')) = Inr False \<and>
   (spec_weighted_sum (re_sub_space_hyphen raw) mod 11 = 1 \<longrightarrow>
      validate_nhs_number (PyStr raw) = Inr False)"
proof -
  have e1: "validate_nhs_number (PyStr (ascii ''9434765919'')) = Inr True" by code_simp
  have e2: "validate_nhs_number (PyStr (ascii ''9434765918'')) = Inr False" by code_simp
  have e3: "validate_nhs_number (PyStr (ascii ''1234567890'')) = Inr False" by code_simp
  have e4: "validate_nhs_number (PyStr (ascii ''123456789'')) = Inr False" by code_simp
  have r1: "spec_weighted_sum (re_sub_space_hyphen raw) mod 11 = 1 \<longrightarrow>
      validate_nhs_number (PyStr raw) = Inr False"
    by (simp add: validate_nhs_number_str spec_identifier_ok_def)
  from e1 e2 e3 e4 r1 show ?thesis
    by (simp add: validate_nhs_number_str)
qed

theorem validate_nhs_number_modulus_11_witness:
  "spec_weighted_sum (re_sub_space_hyphen (ascii ''123-456 7895'')) mod 11 = 1 \<and>
   validate_nhs_number (PyStr (ascii ''123-456 7895'')) = Inr False \<and>
   spec_identifier_ok (re_sub_space_hyphen (ascii ''401 023 2137'')) \<and>
   validate_nhs_number (PyStr (ascii ''401 023 2137'')) = Inr True"
proof -
  have h: "spec_weighted_sum (re_sub_space_hyphen (ascii ''123-456 7895'')) mod 11 = 1"
    by code_simp
  have k: "spec_identifier_ok (re_sub_space_hyphen (ascii ''401 023 2137''))"
    by code_simp
  from h validate_nhs_number_modulus_11 [of "ascii ''123-456 7895''"]
  have f: "validate_nhs_number (PyStr (ascii ''123-456 7895'')) = Inr False"
    by blast
  from k validate_nhs_number_modulus_11 [of "ascii ''401 023 2137''"]
  have t: "validate_nhs_number (PyStr (ascii ''401 023 2137'')) = Inr True"
    by simp
  from h f k t show ?thesis by blast
qed

text \<open>
  Claim C9, as stated, fails in its last clause. The number 9434765919 written in
  Arabic-Indic digits (U+0660 to U+0669) is not a string of ten ASCII digits, which is
  what the specification takes an identifier to be once whitespace and hyphens are
  stripped; \<open>validate_nhs_number\<close> returns true on it.
\<close>

theorem validate_nhs_number_accepts_other_digits:
  "validate_nhs_number
     (PyStr [1641, 1636, 1635, 1636, 1639, 1638, 1637, 1641, 1633, 1641]) = Inr True \<and>
   \<not> list_all ascii_digit
       (re_sub_space_hyphen [1641, 1636, 1635, 1636, 1639, 1638, 1637, 1641, 1633, 1641])"
  by code_simp

text \<open>
  Claim C9, amended. \<open>validate_nhs_number\<close> raises no exception on any input: it returns
  a boolean for \<open>None\<close>, for every value that is not a string and for every string. The
  result is false whenever the input is not a string, or its form after the deletion of
  whitespace and hyphens is not exactly ten decimal digits of Unicode (the empty string,
  too short, too long, other characters). The function is a function of its argument
  alone: it reads and writes no state.
\<close>

theorem validate_nhs_number_never_raises:
  "(\<exists>b. validate_nhs_number v = Inr b) \<and>
   (\<not> isinstance_str v \<longrightarrow> validate_nhs_number v = Inr False) \<and>
   (\<forall>s. v = PyStr s \<and>
        \<not> (length (re_sub_space_hyphen s) = 10 \<and> list_all re_digit (re_sub_space_hyphen s))
        \<longrightarrow> validate_nhs_number v = Inr False)"
proof (cases v)
  case (PyStr s)
  then show ?thesis
    by (auto simp: validate_nhs_number_str spec_identifier_ok_def)
qed (auto simp: validate_nhs_number_not_str)

theorem validate_nhs_number_never_raises_witness:
  "validate_nhs_number PyNone = Inr False \<and>
   validate_nhs_number (PyInt 9434765919) = Inr False \<and>
   validate_nhs_number (PyStr []) = Inr False \<and>
   validate_nhs_number (PyStr (ascii ''12345678901'')) = Inr False \<and>
   validate_nhs_number (PyStr (ascii ''abcdefghij'')) = Inr False \<and>
   (\<exists>b. validate_nhs_number (PyStr (ascii ''9434765919'')) = Inr b)"
proof -
  have a: "\<not> (length (re_sub_space_hyphen []) = 10 \<and>
               list_all re_digit (re_sub_space_hyphen []))"
    by code_simp
  have b: "\<not> (length (re_sub_space_hyphen (ascii ''12345678901'')) = 10 \<and>
               list_all re_digit (re_sub_space_hyphen (ascii ''12345678901'')))"
    by code_simp
  have c: "\<not> (length (re_sub_space_hyphen (ascii ''abcdefghij'')) = 10 \<and>
               list_all re_digit (re_sub_space_hyphen (ascii ''abcdefghij'')))"
    by code_simp
  from a b c
    validate_nhs_number_never_raises [of PyNone]
    validate_nhs_number_never_raises [of "PyInt 9434765919"]
    validate_nhs_number_never_raises [of "PyStr []"]
    validate_nhs_number_never_raises [of "PyStr (ascii ''12345678901'')"]
    validate_nhs_number_never_raises [of "PyStr (ascii ''abcdefghij'')"]
    validate_nhs_number_never_raises [of "PyStr (ascii ''9434765919'')"]
  show ?thesis by simp
qed

text \<open>
  Claim C10. For every string \<open>s\<close>, \<open>validate_nhs_number\<close> gives the same result on \<open>s\<close>
  and on \<open>s\<close> with every space and hyphen removed (whether the space character alone is
  removed or the whole class \<open>\s\<close>); so 943 476 5919 and 9434765919 agree.
\<close>

theorem validate_nhs_number_normalises:
  "validate_nhs_number (PyStr s) = validate_nhs_number (PyStr (strip_space_hyphen s)) \<and>
   validate_nhs_number (PyStr s) = validate_nhs_number (PyStr (re_sub_space_hyphen s)) \<and>
   validate_nhs_number (PyStr (ascii ''943 476 5919'')) =
     validate_nhs_number (PyStr (ascii ''9434765919''))"
proof -
  have "strip_space_hyphen (ascii ''943 476 5919'') = ascii ''9434765919''"
    by (simp add: strip_space_hyphen_def ascii_def)
  then have "re_sub_space_hyphen (ascii ''943 476 5919'') =
               re_sub_space_hyphen (ascii ''9434765919'')"
    using re_sub_strip [of "ascii ''943 476 5919''"] by simp
  then show ?thesis
    by (simp add: validate_nhs_number_str re_sub_idem re_sub_strip)
qed

theorem validate_nhs_number_normalises_witness:
  "strip_space_hyphen (ascii ''401-023 2137'') = ascii ''4010232137'' \<and>
   validate_nhs_number (PyStr (ascii ''401-023 2137'')) =
     validate_nhs_number (PyStr (ascii ''4010232137'')) \<and>
   validate_nhs_number (PyStr (ascii ''4010232137'')) = Inr True"
proof -
  have a: "strip_space_hyphen (ascii ''401-023 2137'') = ascii ''4010232137''"
    by (simp add: strip_space_hyphen_def ascii_def)
  have b: "validate_nhs_number (PyStr (ascii ''4010232137'')) = Inr True"
    by code_simp
  from a b validate_nhs_number_normalises [of "ascii ''401-023 2137''"]
  show ?thesis by simp
qed

section \<open>Properties of check_appointment_conflicts\<close>

subsection \<open>The loops\<close>

text \<open>
  A scan that completes returns the items it kept, in order; a scan meets an exception
  as soon as the body raises on one item it examines.
\<close>

lemma create_scan_Inr:
  "create_scan f st en pr xs acc = Inr r \<Longrightarrow>
     r = acc @ filter (\<lambda>x. examine_existing f st en pr x = Inr True) xs"
proof (induction xs arbitrary: acc)
  case Nil
  then show ?case by simp
next
  case (Cons x xs)
  from Cons.prems obtain b where b: "examine_existing f st en pr x = Inr b"
    and rest: "create_scan f st en pr xs (if b then acc @ [x] else acc) = Inr r"
    by (auto split: sum.splits)
  from Cons.IH[OF rest] b show ?case by (cases b) simp_all
qed

lemma create_scan_Inl:
  "x \<in> set xs \<Longrightarrow> examine_existing f st en pr x = Inl e \<Longrightarrow>
     \<exists>e'. create_scan f st en pr xs acc = Inl e'"
proof (induction xs arbitrary: acc)
  case Nil
  then show ?case by simp
next
  case (Cons y ys)
  then show ?case by (auto split: sum.splits)
qed

lemma update_scan_Inr:
  "update_scan f st en pr ex xs acc = Inr r \<Longrightarrow>
     r = acc @ filter (\<lambda>x. \<not> py_eq_optional_str (dict_get x ''appointment_id'') ex \<and>
                            examine_existing f st en pr x = Inr True) xs"
proof (induction xs arbitrary: acc)
  case Nil
  then show ?case by simp
next
  case (Cons x xs)
  show ?case
  proof (cases "py_eq_optional_str (dict_get x ''appointment_id'') ex")
    case True
    with Cons.prems have "update_scan f st en pr ex xs acc = Inr r" by simp
    from Cons.IH[OF this] True show ?thesis by simp
  next
    case False
    with Cons.prems obtain b where b: "examine_existing f st en pr x = Inr b"
      and rest: "update_scan f st en pr ex xs (if b then acc @ [x] else acc) = Inr r"
      by (auto split: sum.splits)
    from Cons.IH[OF rest] b False show ?thesis by (cases b) simp_all
  qed
qed

lemma update_scan_Inl:
  "x \<in> set xs \<Longrightarrow> \<not> py_eq_optional_str (dict_get x ''appointment_id'') ex \<Longrightarrow>
   examine_existing f st en pr x = Inl e \<Longrightarrow>
     \<exists>e'. update_scan f st en pr ex xs acc = Inl e'"
proof (induction xs arbitrary: acc)
  case Nil
  then show ?case by simp
next
  case (Cons y ys)
  then show ?case by (auto split: sum.splits)
qed

lemma create_check_member:
  assumes "a \<in> set (create_check_appointment_conflicts f db p s d pr)"
  shows "\<exists>st en xs. f (str_replace_Z s) = Inr st \<and>
           datetime_replace_minute st (minute st + d) = Inr en \<and>
           db p st = Inr xs \<and> a \<in> set xs \<and>
           examine_existing f st en pr a = Inr True"
  using assms
  by (auto simp: create_check_appointment_conflicts_def create_try_def
           split: sum.splits dest!: create_scan_Inr[OF sym])

lemma update_check_member:
  assumes "a \<in> set (update_check_appointment_conflicts f db p s d pr ex)"
  shows "\<exists>st en xs. f (str_replace_Z s) = Inr st \<and>
           datetime_replace_minute st (minute st + d) = Inr en \<and>
           db p st = Inr xs \<and> a \<in> set xs \<and>
           \<not> py_eq_optional_str (dict_get a ''appointment_id'') ex \<and>
           examine_existing f st en pr a = Inr True"
  using assms
  by (auto simp: update_check_appointment_conflicts_def update_try_def
           split: sum.splits dest!: update_scan_Inr[OF sym])

lemma examine_True_D:
  assumes "examine_existing f st en pr a = Inr True"
  shows "\<not> status_skipped a" and "practitioner_scope pr a"
    and "\<exists>et ee. existing_time_of f a = Inr et \<and> existing_end_of et a = Inr ee \<and>
           overlap_test st en et ee = Inr True"
  using assms by (auto simp: examine_existing_def split: if_splits sum.splits)

lemma timestamp_replace_minute:
  "timestamp_us (t\<lparr>minute := m\<rparr>) = timestamp_us t + (m - minute t) * 60000000"
  by (simp add: timestamp_us_def algebra_simps)

lemma instant_replace_minute:
  "instant_us (t\<lparr>minute := m\<rparr>) = instant_us t + (m - minute t) * 60000000"
  by (simp add: instant_us_def timestamp_replace_minute)

lemma datetime_less_True:
  "datetime_less a b = Inr True \<Longrightarrow> instant_us a < instant_us b"
  by (auto simp: datetime_less_def instant_us_def split: option.splits)

lemma overlap_test_True:
  "overlap_test st en et ee = Inr True \<Longrightarrow> instant_us st < instant_us ee \<and> instant_us et < instant_us en"
  by (auto simp: overlap_test_def split: sum.splits if_splits dest: datetime_less_True)

lemma replace_minute_instant:
  "datetime_replace_minute t (minute t + d) = Inr t' \<Longrightarrow> instant_us t' = spec_end (instant_us t) d"
  by (auto simp: datetime_replace_minute_def instant_replace_minute spec_end_def split: if_splits)


lemma examine_raises_time:
  "\<not> status_skipped x \<Longrightarrow> existing_time_of f x = Inl e \<Longrightarrow>
     examine_existing f st en pr x = Inl e"
  by (simp add: examine_existing_def)

lemma examine_raises_interval:
  "\<not> status_skipped x \<Longrightarrow> existing_interval_of f x = Inl e \<Longrightarrow>
     examine_existing f st en pr x = Inl e"
  by (auto simp: examine_existing_def existing_interval_of_def split: sum.splits)

lemma examine_raises_minute:
  "\<not> status_skipped x \<Longrightarrow> existing_time_of f x = Inr et \<Longrightarrow>
   dict_get_default x ''duration_minutes'' (PyInt 30) = PyInt ed \<Longrightarrow>
   60 \<le> minute et + ed \<Longrightarrow>
     examine_existing f st en pr x = Inl ValueError"
  by (simp add: examine_existing_def existing_end_of_def datetime_replace_minute_def)

lemma create_check_aborts:
  assumes "x \<in> set xs" and "\<And>st en. \<exists>e. examine_existing f st en pr x = Inl e"
  shows "create_check_appointment_conflicts f (query_const xs) p s d pr = []"
proof -
  have "\<exists>e'. create_scan f st en pr xs [] = Inl e'" for st en
    using assms create_scan_Inl by blast
  then have "\<exists>e'. create_try f (query_const xs) p s d pr = Inl e'"
    by (auto simp: create_try_def query_const_def split: sum.splits)
  then show ?thesis
    by (auto simp: create_check_appointment_conflicts_def)
qed

lemma update_check_aborts:
  assumes "x \<in> set xs" and "\<not> py_eq_optional_str (dict_get x ''appointment_id'') ex"
    and "\<And>st en. \<exists>e. examine_existing f st en pr x = Inl e"
  shows "update_check_appointment_conflicts f (query_const xs) p s d pr ex = []"
proof -
  have "\<exists>e'. update_scan f st en pr ex xs [] = Inl e'" for st en
    using assms update_scan_Inl by blast
  then have "\<exists>e'. update_try f (query_const xs) p s d pr ex = Inl e'"
    by (auto simp: update_try_def query_const_def split: sum.splits)
  then show ?thesis
    by (auto simp: update_check_appointment_conflicts_def)
qed

lemma candidate_overflow_create:
  "f (str_replace_Z s) = Inr st \<Longrightarrow> 60 \<le> minute st + d \<Longrightarrow>
     create_check_appointment_conflicts f db p s d pr = []"
  by (simp add: create_check_appointment_conflicts_def create_try_def datetime_replace_minute_def)

lemma candidate_overflow_update:
  "f (str_replace_Z s) = Inr st \<Longrightarrow> 60 \<le> minute st + d \<Longrightarrow>
     update_check_appointment_conflicts f db p s d pr ex = []"
  by (simp add: update_check_appointment_conflicts_def update_try_def datetime_replace_minute_def)

subsection \<open>Minute arithmetic past the hour\<close>

text \<open>
  Claim C5. When the minute of the candidate's start plus \<open>duration_minutes\<close> is 60 or
  more, \<open>check_appointment_conflicts\<close> (both files) returns the empty list, whatever the
  query answers: \<open>replace(minute=...)\<close> raises ValueError and the handler returns \<open>[]\<close>.
  Likewise, when the answer holds an item that is skipped neither by its status nor (in
  update_appointment.py) by \<open>exclude_appointment_id\<close> and whose start minute plus stored
  duration (30 when absent) is 60 or more, the whole check returns the empty list.
\<close>

theorem minute_overflow_returns_empty:
  "(fromisoformat (str_replace_Z appointment_datetime) = Inr appt_time \<and>
    60 \<le> minute appt_time + duration_minutes \<longrightarrow>
      create_check_appointment_conflicts fromisoformat db_query_items practice_id
        appointment_datetime duration_minutes practitioner_id = [] \<and>
      update_check_appointment_conflicts fromisoformat db_query_items practice_id
        appointment_datetime duration_minutes practitioner_id exclude_appointment_id = []) \<and>
   (existing \<in> set existing_appointments \<and> \<not> status_skipped existing \<and>
    existing_time_of fromisoformat existing = Inr existing_time \<and>
    dict_get_default existing ''duration_minutes'' (PyInt 30) = PyInt existing_duration \<and>
    60 \<le> minute existing_time + existing_duration \<longrightarrow>
      create_check_appointment_conflicts fromisoformat (query_const existing_appointments)
        practice_id appointment_datetime duration_minutes practitioner_id = [] \<and>
      (\<not> py_eq_optional_str (dict_get existing ''appointment_id'') exclude_appointment_id \<longrightarrow>
         update_check_appointment_conflicts fromisoformat (query_const existing_appointments)
           practice_id appointment_datetime duration_minutes practitioner_id
           exclude_appointment_id = []))"
proof (intro conjI impI)
  assume a: "fromisoformat (str_replace_Z appointment_datetime) = Inr appt_time \<and>
    60 \<le> minute appt_time + duration_minutes"
  from a show "create_check_appointment_conflicts fromisoformat db_query_items practice_id
        appointment_datetime duration_minutes practitioner_id = []"
    by (simp add: candidate_overflow_create)
  from a show "update_check_appointment_conflicts fromisoformat db_query_items practice_id
        appointment_datetime duration_minutes practitioner_id exclude_appointment_id = []"
    by (simp add: candidate_overflow_update)
next
  assume b: "existing \<in> set existing_appointments \<and> \<not> status_skipped existing \<and>
    existing_time_of fromisoformat existing = Inr existing_time \<and>
    dict_get_default existing ''duration_minutes'' (PyInt 30) = PyInt existing_duration \<and>
    60 \<le> minute existing_time + existing_duration"
  then have raises: "\<exists>e. examine_existing fromisoformat st en practitioner_id existing = Inl e"
    for st en
    using examine_raises_minute by blast
  from b have m: "existing \<in> set existing_appointments"
    by simp
  show "create_check_appointment_conflicts fromisoformat
        (query_const existing_appointments)
        practice_id appointment_datetime duration_minutes practitioner_id = []"
    by (rule create_check_aborts [OF m raises])
  assume ne: "\<not> py_eq_optional_str (dict_get existing ''appointment_id'') exclude_appointment_id"
  show "update_check_appointment_conflicts fromisoformat
           (query_const existing_appointments)
           practice_id appointment_datetime duration_minutes practitioner_id
           exclude_appointment_id = []"
    by (rule update_check_aborts [OF m ne raises])
qed

theorem minute_overflow_returns_empty_witness:
  "create_check_appointment_conflicts fromisoformat_basic
     (query_const [appointment_item ''a1'' ''dr-1'' ''2024-01-15T10:30:00Z'' 30 ''scheduled''])
     ''P1'' ''2024-01-15T10:30:00Z'' 30 None = [] \<and>
   update_check_appointment_conflicts fromisoformat_basic
     (query_const [appointment_item ''a1'' ''dr-1'' ''2024-01-15T10:30:00Z'' 30 ''scheduled''])
     ''P1'' ''2024-01-15T10:30:00Z'' 30 None (Some ''a9'') = [] \<and>
   create_check_appointment_conflicts fromisoformat_basic
     (query_const [appointment_item ''a2'' ''dr-1'' ''2024-01-15T10:00:00Z'' 15 ''scheduled'',
                   appointment_item ''a1'' ''dr-1'' ''2024-01-15T10:30:00Z'' 30 ''scheduled''])
     ''P1'' ''2024-01-15T10:00:00Z'' 15 None = [] \<and>
   update_check_appointment_conflicts fromisoformat_basic
     (query_const [appointment_item ''a2'' ''dr-1'' ''2024-01-15T10:00:00Z'' 15 ''scheduled'',
                   appointment_item ''a1'' ''dr-1'' ''2024-01-15T10:30:00Z'' 30 ''scheduled''])
     ''P1'' ''2024-01-15T10:00:00Z'' 15 None (Some ''a9'') = []"
proof -
  let ?t = "\<lparr>year = 2024, month = 1, day = 15, hour = 10, minute = 30, second = 0,
       microsecond = 0, tzinfo = Some 0\<rparr>"
  let ?e = "appointment_item ''a1'' ''dr-1'' ''2024-01-15T10:30:00Z'' 30 ''scheduled''"
  let ?xs = "[appointment_item ''a2'' ''dr-1'' ''2024-01-15T10:00:00Z'' 15 ''scheduled'', ?e]"
  have c1: "fromisoformat_basic (str_replace_Z ''2024-01-15T10:30:00Z'') = Inr ?t \<and>
            60 \<le> minute ?t + 30"
    by code_simp
  have e1: "?e \<in> set ?xs" by simp
  have e2: "\<not> status_skipped ?e" by code_simp
  have e3: "existing_time_of fromisoformat_basic ?e = Inr ?t" by code_simp
  have e4: "dict_get_default ?e ''duration_minutes'' (PyInt 30) = PyInt 30" by code_simp
  have e5: "60 \<le> minute ?t + 30" by simp
  have e6: "\<not> py_eq_optional_str (dict_get ?e ''appointment_id'') (Some ''a9'')" by code_simp
  note w1 = minute_overflow_returns_empty [where fromisoformat = fromisoformat_basic
      and appointment_datetime = "''2024-01-15T10:30:00Z''" and appt_time = ?t
      and duration_minutes = 30 and practice_id = "''P1''" and practitioner_id = None
      and exclude_appointment_id = "Some ''a9''" and db_query_items = "query_const [?e]"]
  note w2 = minute_overflow_returns_empty [where fromisoformat = fromisoformat_basic
      and existing = ?e and existing_appointments = ?xs and existing_time = ?t
      and existing_duration = 30
      and appointment_datetime = "''2024-01-15T10:00:00Z''"
      and duration_minutes = 15 and practice_id = "''P1''" and practitioner_id = None
      and exclude_appointment_id = "Some ''a9''"]
  from w1 c1 have r1: "create_check_appointment_conflicts fromisoformat_basic
     (query_const [?e]) ''P1'' ''2024-01-15T10:30:00Z'' 30 None = [] \<and>
   update_check_appointment_conflicts fromisoformat_basic
     (query_const [?e]) ''P1'' ''2024-01-15T10:30:00Z'' 30 None (Some ''a9'') = []"
    by blast
  from w2 e1 e2 e3 e4 e5 e6 have r2: "create_check_appointment_conflicts fromisoformat_basic
     (query_const ?xs) ''P1'' ''2024-01-15T10:00:00Z'' 15 None = [] \<and>
   update_check_appointment_conflicts fromisoformat_basic
     (query_const ?xs) ''P1'' ''2024-01-15T10:00:00Z'' 15 None (Some ''a9'') = []"
    by blast
  from r1 r2 show ?thesis by blast
qed

subsection \<open>The excluded appointment\<close>

text \<open>
  Claim C6. For every candidate that carries an \<open>exclude_appointment_id\<close> and every
  answer of the query, no item of the returned list has that \<open>appointment_id\<close>, whether
  or not its interval overlaps the candidate's.
\<close>

theorem excluded_appointment_not_returned:
  "\<forall>a \<in> set (update_check_appointment_conflicts fromisoformat db_query_items practice_id
                 appointment_datetime duration_minutes practitioner_id (Some exclude_id)).
     dict_get a ''appointment_id'' \<noteq> PyStr exclude_id"
proof
  fix a
  assume "a \<in> set (update_check_appointment_conflicts fromisoformat db_query_items practice_id
                 appointment_datetime duration_minutes practitioner_id (Some exclude_id))"
  then have "\<not> py_eq_optional_str (dict_get a ''appointment_id'') (Some exclude_id)"
    by (blast dest: update_check_member)
  then show "dict_get a ''appointment_id'' \<noteq> PyStr exclude_id"
    by simp
qed

theorem excluded_appointment_not_returned_witness:
  "update_check_appointment_conflicts fromisoformat_basic
     (query_const [appointment_item ''a1'' ''dr-1'' ''2024-01-15T10:00:00Z'' 30 ''scheduled'',
                   appointment_item ''a2'' ''dr-1'' ''2024-01-15T10:00:00Z'' 30 ''scheduled''])
     ''P1'' ''2024-01-15T10:00:00Z'' 30 None (Some ''a1'') =
     [appointment_item ''a2'' ''dr-1'' ''2024-01-15T10:00:00Z'' 30 ''scheduled''] \<and>
   dict_get (appointment_item ''a1'' ''dr-1'' ''2024-01-15T10:00:00Z'' 30 ''scheduled'')
     ''appointment_id'' = PyStr ''a1'' \<and>
   dict_get (appointment_item ''a2'' ''dr-1'' ''2024-01-15T10:00:00Z'' 30 ''scheduled'')
     ''appointment_id'' \<noteq> PyStr ''a1''"
proof -
  let ?a1 = "appointment_item ''a1'' ''dr-1'' ''2024-01-15T10:00:00Z'' 30 ''scheduled''"
  let ?a2 = "appointment_item ''a2'' ''dr-1'' ''2024-01-15T10:00:00Z'' 30 ''scheduled''"
  have r: "update_check_appointment_conflicts fromisoformat_basic (query_const [?a1, ?a2])
     ''P1'' ''2024-01-15T10:00:00Z'' 30 None (Some ''a1'') = [?a2]"
    by code_simp
  have i: "dict_get ?a1 ''appointment_id'' = PyStr ''a1''"
    by code_simp
  from excluded_appointment_not_returned [of fromisoformat_basic "query_const [?a1, ?a2]"
      "''P1''" "''2024-01-15T10:00:00Z''" 30 None "''a1''"] r
  have "dict_get ?a2 ''appointment_id'' \<noteq> PyStr ''a1''"
    by simp
  with r i show ?thesis by blast
qed

subsection \<open>Status of the returned appointments\<close>

text \<open>
  Claim C3, as stated, fails: the claim has every returned appointment in status
  scheduled, and a no_show appointment that overlaps the candidate is returned.
\<close>

theorem no_show_is_returned:
  "\<not> (\<forall>a \<in> set (create_check_appointment_conflicts fromisoformat_basic
                    (query_const [appointment_item ''a1'' ''dr-1'' ''2024-01-15T10:00:00Z'' 30
                                    ''no_show''])
                    ''P1'' ''2024-01-15T10:00:00Z'' 30 None).
         dict_get a ''status'' = PyStr ''scheduled'')"
proof -
  let ?a1 = "appointment_item ''a1'' ''dr-1'' ''2024-01-15T10:00:00Z'' 30 ''no_show''"
  have r: "create_check_appointment_conflicts fromisoformat_basic (query_const [?a1])
     ''P1'' ''2024-01-15T10:00:00Z'' 30 None = [?a1]"
    by code_simp
  have s: "dict_get ?a1 ''status'' \<noteq> PyStr ''scheduled''"
    by code_simp
  from r s show ?thesis by simp
qed

text \<open>
  Claim C3, amended. Every item of the returned list has a status other than cancelled
  and completed: a cancelled or completed appointment never contributes a conflict,
  whatever the overlap.
\<close>

theorem cancelled_completed_not_returned:
  "(\<forall>a \<in> set (create_check_appointment_conflicts fromisoformat db_query_items practice_id
                  appointment_datetime duration_minutes practitioner_id).
      dict_get a ''status'' \<noteq> PyStr ''cancelled'' \<and>
      dict_get a ''status'' \<noteq> PyStr ''completed'') \<and>
   (\<forall>a \<in> set (update_check_appointment_conflicts fromisoformat db_query_items practice_id
                  appointment_datetime duration_minutes practitioner_id
                  exclude_appointment_id).
      dict_get a ''status'' \<noteq> PyStr ''cancelled'' \<and>
      dict_get a ''status'' \<noteq> PyStr ''completed'')"
proof -
  have k: "examine_existing fromisoformat st en practitioner_id a = Inr True \<Longrightarrow>
        dict_get a ''status'' \<noteq> PyStr ''cancelled'' \<and>
        dict_get a ''status'' \<noteq> PyStr ''completed''" for st en a
    by (auto dest!: examine_True_D(1) simp: status_skipped_def)
  show ?thesis
    by (blast dest: create_check_member update_check_member k)
qed

theorem cancelled_completed_not_returned_witness:
  "create_check_appointment_conflicts fromisoformat_basic
     (query_const [appointment_item ''a1'' ''dr-1'' ''2024-01-15T10:00:00Z'' 30 ''cancelled'',
                   appointment_item ''a2'' ''dr-1'' ''2024-01-15T10:00:00Z'' 30 ''completed'',
                   appointment_item ''a3'' ''dr-1'' ''2024-01-15T10:00:00Z'' 30 ''scheduled''])
     ''P1'' ''2024-01-15T10:00:00Z'' 30 None =
     [appointment_item ''a3'' ''dr-1'' ''2024-01-15T10:00:00Z'' 30 ''scheduled''] \<and>
   update_check_appointment_conflicts fromisoformat_basic
     (query_const [appointment_item ''a1'' ''dr-1'' ''2024-01-15T10:00:00Z'' 30 ''cancelled'',
                   appointment_item ''a2'' ''dr-1'' ''2024-01-15T10:00:00Z'' 30 ''completed'',
                   appointment_item ''a3'' ''dr-1'' ''2024-01-15T10:00:00Z'' 30 ''scheduled''])
     ''P1'' ''2024-01-15T10:00:00Z'' 30 None (Some ''a9'') =
     [appointment_item ''a3'' ''dr-1'' ''2024-01-15T10:00:00Z'' 30 ''scheduled''] \<and>
   dict_get (appointment_item ''a3'' ''dr-1'' ''2024-01-15T10:00:00Z'' 30 ''scheduled'')
     ''status'' \<noteq> PyStr ''cancelled'' \<and>
   dict_get (appointment_item ''a3'' ''dr-1'' ''2024-01-15T10:00:00Z'' 30 ''scheduled'')
     ''status'' \<noteq> PyStr ''completed''"
proof -
  let ?xs = "[appointment_item ''a1'' ''dr-1'' ''2024-01-15T10:00:00Z'' 30 ''cancelled'',
              appointment_item ''a2'' ''dr-1'' ''2024-01-15T10:00:00Z'' 30 ''completed'',
              appointment_item ''a3'' ''dr-1'' ''2024-01-15T10:00:00Z'' 30 ''scheduled'']"
  let ?a3 = "appointment_item ''a3'' ''dr-1'' ''2024-01-15T10:00:00Z'' 30 ''scheduled''"
  have r1: "create_check_appointment_conflicts fromisoformat_basic (query_const ?xs)
     ''P1'' ''2024-01-15T10:00:00Z'' 30 None = [?a3]"
    by code_simp
  have r2: "update_check_appointment_conflicts fromisoformat_basic (query_const ?xs)
     ''P1'' ''2024-01-15T10:00:00Z'' 30 None (Some ''a9'') = [?a3]"
    by code_simp
  from cancelled_completed_not_returned [of fromisoformat_basic "query_const ?xs"
      "''P1''" "''2024-01-15T10:00:00Z''" 30 None "Some ''a9''"] r1
  have "dict_get ?a3 ''status'' \<noteq> PyStr ''cancelled'' \<and>
        dict_get ?a3 ''status'' \<noteq> PyStr ''completed''"
    by simp
  with r1 r2 show ?thesis by blast
qed

subsection \<open>A record that cannot be parsed\<close>

text \<open>
  Claim C2, as stated, fails: with one well-formed overlapping record the check returns
  it, and with an unparseable record added to the list the check returns nothing, so the
  conflict found among the well-formed records is lost.
\<close>

theorem malformed_record_aborts_scan:
  "create_check_appointment_conflicts fromisoformat_basic
     (query_const [appointment_item ''a1'' ''dr-1'' ''2024-01-15T10:00:00Z'' 30 ''scheduled''])
     ''P1'' ''2024-01-15T10:15:00Z'' 30 None =
     [appointment_item ''a1'' ''dr-1'' ''2024-01-15T10:00:00Z'' 30 ''scheduled''] \<and>
   existing_time_of fromisoformat_basic
     (appointment_item ''a2'' ''dr-1'' ''not a date'' 30 ''scheduled'') = Inl ValueError \<and>
   create_check_appointment_conflicts fromisoformat_basic
     (query_const [appointment_item ''a1'' ''dr-1'' ''2024-01-15T10:00:00Z'' 30 ''scheduled'',
                   appointment_item ''a2'' ''dr-1'' ''not a date'' 30 ''scheduled''])
     ''P1'' ''2024-01-15T10:15:00Z'' 30 None = [] \<and>
   update_check_appointment_conflicts fromisoformat_basic
     (query_const [appointment_item ''a1'' ''dr-1'' ''2024-01-15T10:00:00Z'' 30 ''scheduled'',
                   appointment_item ''a2'' ''dr-1'' ''not a date'' 30 ''scheduled''])
     ''P1'' ''2024-01-15T10:15:00Z'' 30 None (Some ''a9'') = []"
  by code_simp

text \<open>
  Claim C2, amended. If computing the interval of an existing record fails (malformed
  stored data: \<open>appointment_datetime\<close> absent or unparseable, \<open>duration_minutes\<close> not a
  number, or any other failure of the two statements that give its start and its end)
  and the record is skipped neither by its status nor (in update_appointment.py) by
  \<open>exclude_appointment_id\<close>, the failure ends the whole scan and the conflict check
  returns the empty list, whatever the other records are.
\<close>

theorem unparseable_record_returns_empty:
  "existing \<in> set existing_appointments \<and> \<not> status_skipped existing \<and>
   existing_interval_of fromisoformat existing = Inl e \<longrightarrow>
     create_check_appointment_conflicts fromisoformat (query_const existing_appointments)
       practice_id appointment_datetime duration_minutes practitioner_id = [] \<and>
     (\<not> py_eq_optional_str (dict_get existing ''appointment_id'') exclude_appointment_id \<longrightarrow>
        update_check_appointment_conflicts fromisoformat (query_const existing_appointments)
          practice_id appointment_datetime duration_minutes practitioner_id
          exclude_appointment_id = [])"
proof (intro impI conjI)
  assume b: "existing \<in> set existing_appointments \<and> \<not> status_skipped existing \<and>
   existing_interval_of fromisoformat existing = Inl e"
  then have raises: "\<exists>e. examine_existing fromisoformat st en practitioner_id existing = Inl e"
    for st en
    using examine_raises_interval by blast
  from b have m: "existing \<in> set existing_appointments"
    by simp
  show "create_check_appointment_conflicts fromisoformat (query_const existing_appointments)
       practice_id appointment_datetime duration_minutes practitioner_id = []"
    by (rule create_check_aborts [OF m raises])
  assume ne: "\<not> py_eq_optional_str (dict_get existing ''appointment_id'') exclude_appointment_id"
  show "update_check_appointment_conflicts fromisoformat (query_const existing_appointments)
          practice_id appointment_datetime duration_minutes practitioner_id
          exclude_appointment_id = []"
    by (rule update_check_aborts [OF m ne raises])
qed

theorem unparseable_record_returns_empty_witness:
  "existing_interval_of fromisoformat_basic
     (appointment_item ''a2'' ''dr-1'' ''15/01/2024 10:00'' 30 ''scheduled'') = Inl ValueError \<and>
   create_check_appointment_conflicts fromisoformat_basic
     (query_const [appointment_item ''a1'' ''dr-1'' ''2024-01-15T10:00:00Z'' 30 ''scheduled'',
                   appointment_item ''a2'' ''dr-1'' ''15/01/2024 10:00'' 30 ''scheduled''])
     ''P1'' ''2024-01-15T10:00:00Z'' 30 (Some ''dr-1'') = [] \<and>
   update_check_appointment_conflicts fromisoformat_basic
     (query_const [appointment_item ''a1'' ''dr-1'' ''2024-01-15T10:00:00Z'' 30 ''scheduled'',
                   appointment_item ''a2'' ''dr-1'' ''15/01/2024 10:00'' 30 ''scheduled''])
     ''P1'' ''2024-01-15T10:00:00Z'' 30 (Some ''dr-1'') (Some ''a1'') = [] \<and>
   existing_interval_of fromisoformat_basic
     [(''appointment_id'', PyStr ''a3''), (''practitioner_id'', PyStr ''dr-1''),
      (''appointment_datetime'', PyStr ''2024-01-15T10:00:00Z''),
      (''duration_minutes'', PyStr ''thirty''), (''status'', PyStr ''scheduled'')] =
     Inl TypeError \<and>
   create_check_appointment_conflicts fromisoformat_basic
     (query_const [appointment_item ''a1'' ''dr-1'' ''2024-01-15T10:00:00Z'' 30 ''scheduled'',
                   [(''appointment_id'', PyStr ''a3''), (''practitioner_id'', PyStr ''dr-1''),
                    (''appointment_datetime'', PyStr ''2024-01-15T10:00:00Z''),
                    (''duration_minutes'', PyStr ''thirty''), (''status'', PyStr ''scheduled'')]])
     ''P1'' ''2024-01-15T10:00:00Z'' 30 None = [] \<and>
   update_check_appointment_conflicts fromisoformat_basic
     (query_const [appointment_item ''a1'' ''dr-1'' ''2024-01-15T10:00:00Z'' 30 ''scheduled'',
                   [(''appointment_id'', PyStr ''a3''), (''practitioner_id'', PyStr ''dr-1''),
                    (''appointment_datetime'', PyStr ''2024-01-15T10:00:00Z''),
                    (''duration_minutes'', PyStr ''thirty''), (''status'', PyStr ''scheduled'')]])
     ''P1'' ''2024-01-15T10:00:00Z'' 30 None (Some ''a9'') = []"
proof -
  let ?a1 = "appointment_item ''a1'' ''dr-1'' ''2024-01-15T10:00:00Z'' 30 ''scheduled''"
  let ?a2 = "appointment_item ''a2'' ''dr-1'' ''15/01/2024 10:00'' 30 ''scheduled''"
  let ?a3 = "[(''appointment_id'', PyStr ''a3''), (''practitioner_id'', PyStr ''dr-1''),
              (''appointment_datetime'', PyStr ''2024-01-15T10:00:00Z''),
              (''duration_minutes'', PyStr ''thirty''), (''status'', PyStr ''scheduled'')]"
  have h1: "?a2 \<in> set [?a1, ?a2]" by simp
  have h2: "\<not> status_skipped ?a2" by code_simp
  have h3: "existing_interval_of fromisoformat_basic ?a2 = Inl ValueError" by code_simp
  have h4: "\<not> py_eq_optional_str (dict_get ?a2 ''appointment_id'') (Some ''a1'')" by code_simp
  have k1: "?a3 \<in> set [?a1, ?a3]" by simp
  have k2: "\<not> status_skipped ?a3" by code_simp
  have k3: "existing_interval_of fromisoformat_basic ?a3 = Inl TypeError" by code_simp
  have k4: "\<not> py_eq_optional_str (dict_get ?a3 ''appointment_id'') (Some ''a9'')" by code_simp
  from unparseable_record_returns_empty [where fromisoformat = fromisoformat_basic
      and existing = ?a2 and existing_appointments = "[?a1, ?a2]" and e = ValueError
      and practice_id = "''P1''" and appointment_datetime = "''2024-01-15T10:00:00Z''"
      and duration_minutes = 30 and practitioner_id = "Some ''dr-1''"
      and exclude_appointment_id = "Some ''a1''"] h1 h2 h3 h4
  have r1: "create_check_appointment_conflicts fromisoformat_basic (query_const [?a1, ?a2])
     ''P1'' ''2024-01-15T10:00:00Z'' 30 (Some ''dr-1'') = [] \<and>
   update_check_appointment_conflicts fromisoformat_basic (query_const [?a1, ?a2])
     ''P1'' ''2024-01-15T10:00:00Z'' 30 (Some ''dr-1'') (Some ''a1'') = []"
    by blast
  from unparseable_record_returns_empty [where fromisoformat = fromisoformat_basic
      and existing = ?a3 and existing_appointments = "[?a1, ?a3]" and e = TypeError
      and practice_id = "''P1''" and appointment_datetime = "''2024-01-15T10:00:00Z''"
      and duration_minutes = 30 and practitioner_id = None
      and exclude_appointment_id = "Some ''a9''"] k1 k2 k3 k4
  have r2: "create_check_appointment_conflicts fromisoformat_basic (query_const [?a1, ?a3])
     ''P1'' ''2024-01-15T10:00:00Z'' 30 None = [] \<and>
   update_check_appointment_conflicts fromisoformat_basic (query_const [?a1, ?a3])
     ''P1'' ''2024-01-15T10:00:00Z'' 30 None (Some ''a9'') = []"
    by blast
  from h3 k3 r1 r2 show ?thesis by blast
qed

subsection \<open>Touching intervals\<close>

lemma existing_time_of_str:
  "dict_index x ''appointment_datetime'' = Inr (PyStr s) \<Longrightarrow>
     existing_time_of f x = f (str_replace_Z s)"
  by (simp add: existing_time_of_def)

lemma existing_end_instant:
  "dict_get_default x ''duration_minutes'' (PyInt 30) = PyInt d \<Longrightarrow>
   existing_end_of et x = Inr ee \<Longrightarrow> instant_us ee = spec_end (instant_us et) d"
  by (simp add: existing_end_of_def replace_minute_instant)

lemma examine_True_instants:
  assumes "examine_existing f st en pr x = Inr True"
  shows "\<exists>et ee. existing_time_of f x = Inr et \<and> existing_end_of et x = Inr ee \<and>
           instant_us st < instant_us ee \<and> instant_us et < instant_us en"
  using examine_True_D(3) [OF assms] overlap_test_True by blast

lemma create_check_singleton_empty:
  assumes "\<And>st en. f (str_replace_Z s) = Inr st \<Longrightarrow>
             datetime_replace_minute st (minute st + d) = Inr en \<Longrightarrow>
             examine_existing f st en pr x \<noteq> Inr True"
  shows "create_check_appointment_conflicts f (query_const [x]) p s d pr = []"
proof -
  have "a \<notin> set (create_check_appointment_conflicts f (query_const [x]) p s d pr)" for a
  proof
    assume "a \<in> set (create_check_appointment_conflicts f (query_const [x]) p s d pr)"
    from create_check_member [OF this] assms show False
      by (auto simp: query_const_def)
  qed
  then show ?thesis
    by (cases "create_check_appointment_conflicts f (query_const [x]) p s d pr")
      (simp_all, metis)
qed

lemma update_check_singleton_empty:
  assumes "\<And>st en. f (str_replace_Z s) = Inr st \<Longrightarrow>
             datetime_replace_minute st (minute st + d) = Inr en \<Longrightarrow>
             examine_existing f st en pr x \<noteq> Inr True"
  shows "update_check_appointment_conflicts f (query_const [x]) p s d pr ex = []"
proof -
  have "a \<notin> set (update_check_appointment_conflicts f (query_const [x]) p s d pr ex)" for a
  proof
    assume "a \<in> set (update_check_appointment_conflicts f (query_const [x]) p s d pr ex)"
    from update_check_member [OF this] assms show False
      by (auto simp: query_const_def)
  qed
  then show ?thesis
    by (cases "update_check_appointment_conflicts f (query_const [x]) p s d pr ex")
      (simp_all, metis)
qed

text \<open>The candidate ends where the existing item starts: the item is not appended.\<close>

lemma examine_starts_at_candidate_end:
  assumes "f (str_replace_Z s) = Inr st"
    and "datetime_replace_minute st (minute st + d) = Inr en"
    and "dict_index x ''appointment_datetime'' = Inr (PyStr xs)"
    and "f (str_replace_Z xs) = Inr xt"
    and "spec_end (instant_us st) d = instant_us xt"
  shows "examine_existing f st en pr x \<noteq> Inr True"
proof
  assume "examine_existing f st en pr x = Inr True"
  from examine_True_instants [OF this] obtain et
    where et: "existing_time_of f x = Inr et" and lt: "instant_us et < instant_us en"
    by blast
  from et assms(3,4) have "et = xt"
    by (simp add: existing_time_of_str)
  moreover from assms(2) have "instant_us en = spec_end (instant_us st) d"
    by (rule replace_minute_instant)
  ultimately show False
    using lt assms(5) by simp
qed

text \<open>The existing item ends where the candidate starts: the item is not appended.\<close>

lemma examine_ends_at_candidate_start:
  assumes "dict_index x ''appointment_datetime'' = Inr (PyStr xs)"
    and "f (str_replace_Z xs) = Inr xt"
    and "dict_get_default x ''duration_minutes'' (PyInt 30) = PyInt xd"
    and "spec_end (instant_us xt) xd = instant_us st"
  shows "examine_existing f st en pr x \<noteq> Inr True"
proof
  assume "examine_existing f st en pr x = Inr True"
  from examine_True_instants [OF this] obtain et ee
    where et: "existing_time_of f x = Inr et" and ee: "existing_end_of et x = Inr ee"
      and lt: "instant_us st < instant_us ee"
    by blast
  from et assms(1,2) have "et = xt"
    by (simp add: existing_time_of_str)
  moreover from ee assms(3) have "instant_us ee = spec_end (instant_us et) xd"
    using existing_end_instant by blast
  ultimately show False
    using lt assms(4) by simp
qed

text \<open>
  Claim C8. For two back-to-back appointments A and B, the true end of A (its start plus
  its duration) being the start of B, the conflict check reports no conflict for A as the
  candidate against B, nor for B as the candidate against A, in both files.
\<close>

theorem back_to_back_no_conflict:
  "fromisoformat (str_replace_Z a_datetime) = Inr a_start \<and>
   fromisoformat (str_replace_Z b_datetime) = Inr b_start \<and>
   dict_index a_item ''appointment_datetime'' = Inr (PyStr a_datetime) \<and>
   dict_get_default a_item ''duration_minutes'' (PyInt 30) = PyInt a_duration \<and>
   dict_index b_item ''appointment_datetime'' = Inr (PyStr b_datetime) \<and>
   spec_end (instant_us a_start) a_duration = instant_us b_start \<longrightarrow>
     create_check_appointment_conflicts fromisoformat (query_const [b_item]) practice_id
       a_datetime a_duration a_practitioner = [] \<and>
     create_check_appointment_conflicts fromisoformat (query_const [a_item]) practice_id
       b_datetime b_duration b_practitioner = [] \<and>
     update_check_appointment_conflicts fromisoformat (query_const [b_item]) practice_id
       a_datetime a_duration a_practitioner a_exclude = [] \<and>
     update_check_appointment_conflicts fromisoformat (query_const [a_item]) practice_id
       b_datetime b_duration b_practitioner b_exclude = []"
proof (intro impI)
  assume h: "fromisoformat (str_replace_Z a_datetime) = Inr a_start \<and>
   fromisoformat (str_replace_Z b_datetime) = Inr b_start \<and>
   dict_index a_item ''appointment_datetime'' = Inr (PyStr a_datetime) \<and>
   dict_get_default a_item ''duration_minutes'' (PyInt 30) = PyInt a_duration \<and>
   dict_index b_item ''appointment_datetime'' = Inr (PyStr b_datetime) \<and>
   spec_end (instant_us a_start) a_duration = instant_us b_start"
  have ab: "examine_existing fromisoformat st en a_practitioner b_item \<noteq> Inr True"
    if "fromisoformat (str_replace_Z a_datetime) = Inr st"
      and "datetime_replace_minute st (minute st + a_duration) = Inr en" for st en
    using that h examine_starts_at_candidate_end [of fromisoformat a_datetime st a_duration en
        b_item b_datetime b_start a_practitioner]
    by simp
  have ba: "examine_existing fromisoformat st en b_practitioner a_item \<noteq> Inr True"
    if "fromisoformat (str_replace_Z b_datetime) = Inr st" for st en
    using that h examine_ends_at_candidate_start [of a_item a_datetime fromisoformat a_start
        a_duration st en b_practitioner]
    by simp
  show "create_check_appointment_conflicts fromisoformat (query_const [b_item]) practice_id
       a_datetime a_duration a_practitioner = [] \<and>
     create_check_appointment_conflicts fromisoformat (query_const [a_item]) practice_id
       b_datetime b_duration b_practitioner = [] \<and>
     update_check_appointment_conflicts fromisoformat (query_const [b_item]) practice_id
       a_datetime a_duration a_practitioner a_exclude = [] \<and>
     update_check_appointment_conflicts fromisoformat (query_const [a_item]) practice_id
       b_datetime b_duration b_practitioner b_exclude = []"
    using ab ba
    by (intro conjI create_check_singleton_empty update_check_singleton_empty) blast+
qed

theorem back_to_back_no_conflict_witness:
  "spec_end (instant_us \<lparr>year = 2024, month = 1, day = 15, hour = 10, minute = 0, second = 0,
                          microsecond = 0, tzinfo = Some 0\<rparr>) 30 =
     instant_us \<lparr>year = 2024, month = 1, day = 15, hour = 10, minute = 30, second = 0,
                 microsecond = 0, tzinfo = Some 0\<rparr> \<and>
   create_check_appointment_conflicts fromisoformat_basic
     (query_const [appointment_item ''b'' ''dr-1'' ''2024-01-15T10:30:00Z'' 15 ''scheduled''])
     ''P1'' ''2024-01-15T10:00:00Z'' 30 None = [] \<and>
   create_check_appointment_conflicts fromisoformat_basic
     (query_const [appointment_item ''a'' ''dr-1'' ''2024-01-15T10:00:00Z'' 30 ''scheduled''])
     ''P1'' ''2024-01-15T10:30:00Z'' 15 None = [] \<and>
   update_check_appointment_conflicts fromisoformat_basic
     (query_const [appointment_item ''b'' ''dr-1'' ''2024-01-15T10:30:00Z'' 15 ''scheduled''])
     ''P1'' ''2024-01-15T10:00:00Z'' 30 None (Some ''a'') = [] \<and>
   update_check_appointment_conflicts fromisoformat_basic
     (query_const [appointment_item ''a'' ''dr-1'' ''2024-01-15T10:00:00Z'' 30 ''scheduled''])
     ''P1'' ''2024-01-15T10:30:00Z'' 15 None (Some ''b'') = [] \<and>
   create_check_appointment_conflicts fromisoformat_basic
     (query_const [appointment_item ''a'' ''dr-1'' ''2024-01-15T10:00:00Z'' 30 ''scheduled''])
     ''P1'' ''2024-01-15T10:15:00Z'' 15 None =
     [appointment_item ''a'' ''dr-1'' ''2024-01-15T10:00:00Z'' 30 ''scheduled'']"
proof -
  let ?ta = "\<lparr>year = 2024, month = 1, day = 15, hour = 10, minute = 0, second = 0,
               microsecond = 0, tzinfo = Some 0\<rparr>"
  let ?tb = "\<lparr>year = 2024, month = 1, day = 15, hour = 10, minute = 30, second = 0,
               microsecond = 0, tzinfo = Some 0\<rparr>"
  let ?a = "appointment_item ''a'' ''dr-1'' ''2024-01-15T10:00:00Z'' 30 ''scheduled''"
  let ?b = "appointment_item ''b'' ''dr-1'' ''2024-01-15T10:30:00Z'' 15 ''scheduled''"
  have h1: "fromisoformat_basic (str_replace_Z ''2024-01-15T10:00:00Z'') = Inr ?ta"
    by code_simp
  have h2: "fromisoformat_basic (str_replace_Z ''2024-01-15T10:30:00Z'') = Inr ?tb"
    by code_simp
  have h3: "dict_index ?a ''appointment_datetime'' = Inr (PyStr ''2024-01-15T10:00:00Z'')"
    by code_simp
  have h4: "dict_get_default ?a ''duration_minutes'' (PyInt 30) = PyInt 30"
    by code_simp
  have h5: "dict_index ?b ''appointment_datetime'' = Inr (PyStr ''2024-01-15T10:30:00Z'')"
    by code_simp
  have h6: "spec_end (instant_us ?ta) 30 = instant_us ?tb"
    by code_simp
  have ov: "create_check_appointment_conflicts fromisoformat_basic (query_const [?a])
     ''P1'' ''2024-01-15T10:15:00Z'' 15 None = [?a]"
    by code_simp
  from back_to_back_no_conflict [where fromisoformat = fromisoformat_basic
      and a_datetime = "''2024-01-15T10:00:00Z''" and a_start = ?ta
      and b_datetime = "''2024-01-15T10:30:00Z''" and b_start = ?tb
      and a_item = ?a and b_item = ?b and a_duration = 30 and b_duration = 15
      and practice_id = "''P1''" and a_practitioner = None and b_practitioner = None
      and a_exclude = "Some ''a''" and b_exclude = "Some ''b''"]
    h1 h2 h3 h4 h5 h6
  have "create_check_appointment_conflicts fromisoformat_basic (query_const [?b])
     ''P1'' ''2024-01-15T10:00:00Z'' 30 None = [] \<and>
   create_check_appointment_conflicts fromisoformat_basic (query_const [?a])
     ''P1'' ''2024-01-15T10:30:00Z'' 15 None = [] \<and>
   update_check_appointment_conflicts fromisoformat_basic (query_const [?b])
     ''P1'' ''2024-01-15T10:00:00Z'' 30 None (Some ''a'') = [] \<and>
   update_check_appointment_conflicts fromisoformat_basic (query_const [?a])
     ''P1'' ''2024-01-15T10:30:00Z'' 15 None (Some ''b'') = []"
    by blast
  with h6 ov show ?thesis by blast
qed

subsection \<open>Overlapping appointments the check misses\<close>

text \<open>
  Claim C1, at a failing input. The claim has the check return exactly the existing
  appointments that overlap the candidate. A candidate at 10:30 for 30 minutes and a
  scheduled appointment at 10:30 for 30 minutes overlap, and the detector of the
  specification returns the appointment; \<open>check_appointment_conflicts\<close> of both files
  returns the empty list, because \<open>replace(minute=30 + 30)\<close> raises ValueError.
\<close>

theorem half_hour_candidate_conflict_missed:
  "create_check_appointment_conflicts fromisoformat_basic
     (query_const [appointment_item ''a1'' ''dr-1'' ''2024-01-15T10:30:00Z'' 30 ''scheduled''])
     ''P1'' ''2024-01-15T10:30:00Z'' 30 None = [] \<and>
   update_check_appointment_conflicts fromisoformat_basic
     (query_const [appointment_item ''a1'' ''dr-1'' ''2024-01-15T10:30:00Z'' 30 ''scheduled''])
     ''P1'' ''2024-01-15T10:30:00Z'' 30 None (Some ''a9'') = [] \<and>
   fromisoformat_basic (str_replace_Z ''2024-01-15T10:30:00Z'') =
     Inr \<lparr>year = 2024, month = 1, day = 15, hour = 10, minute = 30, second = 0,
          microsecond = 0, tzinfo = Some 0\<rparr> \<and>
   spec_find_conflicts fromisoformat_basic
     \<lparr>year = 2024, month = 1, day = 15, hour = 10, minute = 30, second = 0,
      microsecond = 0, tzinfo = Some 0\<rparr> 30 None (Some ''a9'')
     [appointment_item ''a1'' ''dr-1'' ''2024-01-15T10:30:00Z'' 30 ''scheduled''] =
     [appointment_item ''a1'' ''dr-1'' ''2024-01-15T10:30:00Z'' 30 ''scheduled'']"
  by code_simp

subsection \<open>Practitioner scoping\<close>

text \<open>
  With a practitioner that is not the empty string, every returned item has that
  practitioner.
\<close>

lemma practitioner_scoped_results:
  assumes "practitioner \<noteq> []"
  shows "a \<in> set (create_check_appointment_conflicts f db p s d (Some practitioner)) \<Longrightarrow>
           dict_get a ''practitioner_id'' = PyStr practitioner"
    and "a \<in> set (update_check_appointment_conflicts f db p s d (Some practitioner) ex) \<Longrightarrow>
           dict_get a ''practitioner_id'' = PyStr practitioner"
proof -
  have k: "examine_existing f st en (Some practitioner) a = Inr True \<Longrightarrow>
        dict_get a ''practitioner_id'' = PyStr practitioner" for st en
    using assms by (auto dest!: examine_True_D(2) simp: practitioner_scope_def)
  show "a \<in> set (create_check_appointment_conflicts f db p s d (Some practitioner)) \<Longrightarrow>
           dict_get a ''practitioner_id'' = PyStr practitioner"
    by (blast dest: create_check_member k)
  show "a \<in> set (update_check_appointment_conflicts f db p s d (Some practitioner) ex) \<Longrightarrow>
           dict_get a ''practitioner_id'' = PyStr practitioner"
    by (blast dest: update_check_member k)
qed

text \<open>
  Claim C7, at a failing input. The claim has every overlapping appointment that is
  neither cancelled nor completed returned when the candidate names no practitioner. A
  candidate at 10:00 for 60 minutes without practitioner overlaps a scheduled
  appointment of dr-2 at 10:30, and the detector of the specification returns it;
  \<open>check_appointment_conflicts\<close> returns the empty list, because \<open>replace(minute=0 + 60)\<close>
  raises ValueError.
\<close>

theorem unscoped_candidate_conflict_missed:
  "create_check_appointment_conflicts fromisoformat_basic
     (query_const [appointment_item ''a2'' ''dr-2'' ''2024-01-15T10:30:00Z'' 15 ''scheduled''])
     ''P1'' ''2024-01-15T10:00:00Z'' 60 None = [] \<and>
   fromisoformat_basic (str_replace_Z ''2024-01-15T10:00:00Z'') =
     Inr \<lparr>year = 2024, month = 1, day = 15, hour = 10, minute = 0, second = 0,
          microsecond = 0, tzinfo = Some 0\<rparr> \<and>
   spec_find_conflicts fromisoformat_basic
     \<lparr>year = 2024, month = 1, day = 15, hour = 10, minute = 0, second = 0,
      microsecond = 0, tzinfo = Some 0\<rparr> 60 None None
     [appointment_item ''a2'' ''dr-2'' ''2024-01-15T10:30:00Z'' 15 ''scheduled''] =
     [appointment_item ''a2'' ''dr-2'' ''2024-01-15T10:30:00Z'' 15 ''scheduled'']"
  by code_simp

end
